theory Spec2Isabelle
  imports Complex_Main
begin

section \<open>Data model (types.ts)\<close>

text \<open>
  The whiteboard's numbers are JavaScript doubles. They are modelled as reals: rounding,
  NaN and the infinities are outside the model, and every theorem whose statement
  divides assumes the divisor positive (in HOL \<open>a / 0 = 0\<close>, in JavaScript it is
  \<open>Infinity\<close> or \<open>NaN\<close>).
\<close>

datatype Tool = Select | Pen | Highlighter | Eraser | StrokeEraser

record Point =
  pt_x :: real
  pt_y :: real

record Path =
  points :: "Point list"
  color :: string
  lineWidth :: real
  path_tool :: Tool

text \<open>
  An \<open>HTMLImageElement\<close> is identified by the \<open>src\<close> attribute it was given. On the wire
  the \<open>image\<close> field of an image element is \<open>undefined\<close>, here \<open>None\<close>; the optional fields
  \<open>src\<close> and \<open>locked\<close> are options as well.
\<close>

datatype HTMLImageElement = Image string

record ImageElement =
  image_id :: string
  image_obj :: "HTMLImageElement option"
  src :: "string option"
  img_x :: real
  img_y :: real
  width :: real
  height :: real
  locked :: "bool option"

record PathElement =
  path_id :: string
  path :: Path

datatype CanvasElement = PathEl PathElement | ImageEl ImageElement

fun el_id :: "CanvasElement \<Rightarrow> string" where
  "el_id (PathEl pe) = path_id pe"
| "el_id (ImageEl im) = image_id im"

text \<open>JavaScript truthiness of the optional fields: \<open>!!el.locked\<close> and \<open>el.src\<close>.\<close>

definition is_locked :: "ImageElement \<Rightarrow> bool" where
  "is_locked im = (locked im = Some True)"

text \<open>
  The payload of \<open>UPDATE_ELEMENT\<close> is an object with an \<open>id\<close> and any subset of an element's
  data fields; \<open>{ ...el, ...msg.payload }\<close> overwrites exactly the fields that are present.
\<close>

record ElementUpdate =
  upd_id :: string
  upd_locked :: "bool option"
  upd_x :: "real option"
  upd_y :: "real option"
  upd_width :: "real option"
  upd_height :: "real option"
  upd_src :: "string option"
  upd_path :: "Path option"

text \<open>
  The five message kinds of \<open>SyncMessageType\<close>. A received object is only cast to
  \<open>SyncMessage\<close>, so its \<open>type\<close> may be any other string: \<open>OTHER_TYPE\<close>.
\<close>

datatype SyncMessage =
    SYNC_FULL_STATE "CanvasElement list"
  | ADD_ELEMENT CanvasElement
  | UPDATE_ELEMENT ElementUpdate
  | REMOVE_ELEMENT string
  | CLEAR_BOARD
  | OTHER_TYPE string

section \<open>Application state (App.tsx and Whiteboard.tsx)\<close>

datatype Action = NoAction | Drawing | Panning | Resizing | Moving

datatype ResizeHandle = TopLeft | TopRight | BottomLeft | BottomRight

record ViewTransform =
  scale :: real
  offset :: Point

text \<open>
  One record holds the React state and refs of \<open>App\<close> and \<open>Whiteboard\<close>. \<open>canvas\<close> is the
  bounding rectangle's \<open>(left, top)\<close> of \<open>canvasRef.current\<close>, \<open>None\<close> when the ref is null.
  \<open>connOpen\<close> is \<open>connRef.current && connRef.current.open\<close>, and \<open>sent\<close> lists the
  arguments of \<open>connRef.current.send\<close>, oldest first.
\<close>

record App =
  tool :: Tool
  prop_color :: string
  prop_lineWidth :: real
  elements :: "CanvasElement list"
  undoStack :: "CanvasElement list"
  currentPath :: "Path option"
  action :: Action
  panStart :: Point
  moveStart :: Point
  resizeHandle :: "ResizeHandle option"
  selectedElementId :: "string option"
  viewTransform :: ViewTransform
  canvas :: "(real \<times> real) option"
  cursor :: string
  connOpen :: bool
  sent :: "SyncMessage list"

section \<open>Sync protocol (App.tsx)\<close>

definition sendSyncMessage :: "SyncMessage \<Rightarrow> App \<Rightarrow> App" where
  "sendSyncMessage msg st = (if connOpen st then st\<lparr>sent := sent st @ [msg]\<rparr> else st)"

text \<open>
  The callback of both \<open>SYNC_FULL_STATE\<close> and \<open>ADD_ELEMENT\<close>: an image element with a
  truthy (non-empty) \<open>src\<close> gets a fresh image object loaded from it.
\<close>

fun rehydrate :: "CanvasElement \<Rightarrow> CanvasElement" where
  "rehydrate (ImageEl im) =
     (case src im of
        Some s \<Rightarrow> if s \<noteq> [] then ImageEl (im\<lparr>image_obj := Some (Image s)\<rparr>) else ImageEl im
      | None \<Rightarrow> ImageEl im)"
| "rehydrate (PathEl pe) = PathEl pe"

definition override :: "'a option \<Rightarrow> 'a \<Rightarrow> 'a" where
  "override new old = (case new of Some v \<Rightarrow> v | None \<Rightarrow> old)"

text \<open>\<open>{ ...el, ...msg.payload }\<close>; keys that the element's variant never reads are dropped.\<close>

fun mergeUpdate :: "ElementUpdate \<Rightarrow> CanvasElement \<Rightarrow> CanvasElement" where
  "mergeUpdate u (ImageEl im) =
     ImageEl (im\<lparr>src := (case upd_src u of Some s \<Rightarrow> Some s | None \<Rightarrow> src im),
                 img_x := override (upd_x u) (img_x im),
                 img_y := override (upd_y u) (img_y im),
                 width := override (upd_width u) (width im),
                 height := override (upd_height u) (height im),
                 locked := (case upd_locked u of Some b \<Rightarrow> Some b | None \<Rightarrow> locked im)\<rparr>)"
| "mergeUpdate u (PathEl pe) = PathEl (pe\<lparr>path := override (upd_path u) (path pe)\<rparr>)"

text \<open>\<open>handleRemoteData\<close> calls the raw state setter \<open>setElements\<close> of \<open>useState\<close>.\<close>

definition handleRemoteData :: "SyncMessage \<Rightarrow> App \<Rightarrow> App" where
  "handleRemoteData msg st =
     (case msg of
        SYNC_FULL_STATE payload \<Rightarrow> st\<lparr>elements := map rehydrate payload\<rparr>
      | ADD_ELEMENT newEl \<Rightarrow>
          (case find (\<lambda>e. el_id e = el_id newEl) (elements st) of
             Some found \<Rightarrow> st
           | None \<Rightarrow> st\<lparr>elements := elements st @ [rehydrate newEl]\<rparr>)
      | REMOVE_ELEMENT rid \<Rightarrow> st\<lparr>elements := filter (\<lambda>el. el_id el \<noteq> rid) (elements st)\<rparr>
      | CLEAR_BOARD \<Rightarrow> st\<lparr>elements := []\<rparr>
      | UPDATE_ELEMENT u \<Rightarrow>
          st\<lparr>elements := map (\<lambda>el. if el_id el = upd_id u then mergeUpdate u el else el)
                               (elements st)\<rparr>
      | OTHER_TYPE t \<Rightarrow> st)"

text \<open>Messages arrive one at a time on the data connection, in order.\<close>

fun receiveAll :: "SyncMessage list \<Rightarrow> App \<Rightarrow> App" where
  "receiveAll [] st = st"
| "receiveAll (m # ms) st = receiveAll ms (handleRemoteData m st)"

text \<open>
  \<open>handleSetElements\<close> is the setter handed to \<open>Whiteboard\<close>: it runs the updater, compares
  lengths and sends at most one message. A change that keeps the length sends nothing.
  \<open>Whiteboard\<close> always passes an updater function; a plain new value \<open>v\<close> is the updater
  \<open>\<lambda>prev. v\<close>.
\<close>

definition syncPayload :: "CanvasElement \<Rightarrow> CanvasElement" where
  "syncPayload newEl =
     (case newEl of
        ImageEl im \<Rightarrow>
          (case image_obj im of
             Some (Image s) \<Rightarrow>
               if take 5 s = ''data:'' then ImageEl (im\<lparr>src := Some s, image_obj := None\<rparr>)
               else newEl
           | None \<Rightarrow> newEl)
      | PathEl pe \<Rightarrow> newEl)"

definition handleSetElements :: "(CanvasElement list \<Rightarrow> CanvasElement list) \<Rightarrow> App \<Rightarrow> App" where
  "handleSetElements updater st =
     (let prev = elements st; next = updater prev; st' = st\<lparr>elements := next\<rparr> in
      if length next > length prev then
        sendSyncMessage (ADD_ELEMENT (syncPayload (last next))) st'
      else if length next < length prev then
        (case find (\<lambda>e. el_id e \<notin> set (map el_id next)) prev of
           Some removed \<Rightarrow> sendSyncMessage (REMOVE_ELEMENT (el_id removed)) st'
         | None \<Rightarrow> st')
      else st')"

section \<open>Geometry (Whiteboard.tsx)\<close>

definition getTransformedPoint :: "App \<Rightarrow> real \<Rightarrow> real \<Rightarrow> Point" where
  "getTransformedPoint st clientX clientY =
     (case canvas st of
        None \<Rightarrow> \<lparr>pt_x = 0, pt_y = 0\<rparr>
      | Some (rect_left, rect_top) \<Rightarrow>
          \<lparr>pt_x = (clientX - rect_left - pt_x (offset (viewTransform st))) / scale (viewTransform st),
           pt_y = (clientY - rect_top - pt_y (offset (viewTransform st))) / scale (viewTransform st)\<rparr>)"

definition inImage :: "Point \<Rightarrow> ImageElement \<Rightarrow> bool" where
  "inImage point element =
     (pt_x point \<ge> img_x element \<and> pt_x point \<le> img_x element + width element \<and>
      pt_y point \<ge> img_y element \<and> pt_y point \<le> img_y element + height element)"

text \<open>
  Both hit tests loop \<open>for (let i = elements.length - 1; i >= 0; i--)\<close>: the recursion runs
  over the reversed store.
\<close>

fun imageFrom :: "Point \<Rightarrow> CanvasElement list \<Rightarrow> ImageElement option" where
  "imageFrom point [] = None"
| "imageFrom point (ImageEl element # below) =
     (if inImage point element then Some element else imageFrom point below)"
| "imageFrom point (PathEl pe # below) = imageFrom point below"

definition getElementAtPoint :: "App \<Rightarrow> Point \<Rightarrow> ImageElement option" where
  "getElementAtPoint st point = imageFrom point (rev (elements st))"

definition hypot :: "real \<Rightarrow> real \<Rightarrow> real" where
  "hypot a b = sqrt (a * a + b * b)"

text \<open>The inner loop over \<open>j\<close>; \<open>True\<close> is its \<open>return element\<close>.\<close>

fun segmentHit :: "Point \<Rightarrow> real \<Rightarrow> Point list \<Rightarrow> bool" where
  "segmentHit point threshold (p1 # p2 # rest) =
     (let dx = pt_x p2 - pt_x p1;
          dy = pt_y p2 - pt_y p1;
          lenSq = dx * dx + dy * dy in
      if lenSq = 0 then
        (if hypot (pt_x point - pt_x p1) (pt_y point - pt_y p1) < threshold then True
         else segmentHit point threshold (p2 # rest))
      else
        (let t = max 0 (min 1 (((pt_x point - pt_x p1) * dx + (pt_y point - pt_y p1) * dy) / lenSq));
             closestX = pt_x p1 + t * dx;
             closestY = pt_y p1 + t * dy in
         if hypot (pt_x point - closestX) (pt_y point - closestY) < threshold then True
         else segmentHit point threshold (p2 # rest)))"
| "segmentHit point threshold ps = False"

fun pathFrom :: "ViewTransform \<Rightarrow> Point \<Rightarrow> CanvasElement list \<Rightarrow> PathElement option" where
  "pathFrom vt point [] = None"
| "pathFrom vt point (PathEl element # below) =
     (if segmentHit point ((lineWidth (path element) / 2 + 5) / scale vt) (points (path element))
      then Some element else pathFrom vt point below)"
| "pathFrom vt point (ImageEl im # below) = pathFrom vt point below"

definition getPathAtPoint :: "App \<Rightarrow> Point \<Rightarrow> PathElement option" where
  "getPathAtPoint st point = pathFrom (viewTransform st) point (rev (elements st))"

text \<open>The \<open>handles\<close> object of \<open>getResizeHandleAtPoint\<close>, in its insertion order.\<close>

fun handlePosition :: "ResizeHandle \<Rightarrow> ImageElement \<Rightarrow> Point" where
  "handlePosition TopLeft element = \<lparr>pt_x = img_x element, pt_y = img_y element\<rparr>"
| "handlePosition TopRight element = \<lparr>pt_x = img_x element + width element, pt_y = img_y element\<rparr>"
| "handlePosition BottomLeft element = \<lparr>pt_x = img_x element, pt_y = img_y element + height element\<rparr>"
| "handlePosition BottomRight element =
     \<lparr>pt_x = img_x element + width element, pt_y = img_y element + height element\<rparr>"

definition getResizeHandleAtPoint :: "App \<Rightarrow> Point \<Rightarrow> ImageElement \<Rightarrow> ResizeHandle option" where
  "getResizeHandleAtPoint st point element =
     (let handleSize = 12 / scale (viewTransform st) in
      find (\<lambda>name. \<bar>pt_x point - pt_x (handlePosition name element)\<bar> < handleSize / 2 \<and>
                   \<bar>pt_y point - pt_y (handlePosition name element)\<bar> < handleSize / 2)
           [TopLeft, TopRight, BottomLeft, BottomRight])"

definition isPointInLockButton :: "App \<Rightarrow> Point \<Rightarrow> ImageElement \<Rightarrow> bool" where
  "isPointInLockButton st point element =
     (let btnSize = 24 / scale (viewTransform st);
          padding = 8 / scale (viewTransform st);
          btnX = img_x element + width element - btnSize;
          btnY = img_y element - btnSize - padding;
          hitPadding = 10 / scale (viewTransform st) in
      pt_x point \<ge> btnX - hitPadding \<and>
      pt_x point \<le> btnX + btnSize + hitPadding \<and>
      pt_y point \<ge> btnY - hitPadding \<and>
      pt_y point \<le> btnY + btnSize + hitPadding)"

text \<open>\<open>elements.find(el => el.id === selectedElementId && el.type === 'image')\<close>\<close>

definition selectedImage :: "App \<Rightarrow> ImageElement option" where
  "selectedImage st =
     (case find (\<lambda>el. Some (el_id el) = selectedElementId st \<and>
                       (case el of ImageEl im \<Rightarrow> True | PathEl pe \<Rightarrow> False)) (elements st) of
        Some (ImageEl im) \<Rightarrow> Some im
      | Some (PathEl pe) \<Rightarrow> None
      | None \<Rightarrow> None)"

section \<open>Pointer handlers (Whiteboard.tsx)\<close>

definition startDrawing :: "real \<Rightarrow> real \<Rightarrow> App \<Rightarrow> App" where
  "startDrawing clientX clientY st =
     st\<lparr>action := Drawing,
        currentPath := Some \<lparr>points = [getTransformedPoint st clientX clientY],
                             color = prop_color st,
                             lineWidth = prop_lineWidth st,
                             path_tool = (if tool st = Select then Pen else tool st)\<rparr>,
        undoStack := []\<rparr>"

definition toggleLock :: "string \<Rightarrow> CanvasElement \<Rightarrow> CanvasElement" where
  "toggleLock sid el =
     (case el of
        ImageEl im \<Rightarrow>
          if image_id im = sid then ImageEl (im\<lparr>locked := Some (\<not> is_locked im)\<rparr>) else el
      | PathEl pe \<Rightarrow> el)"

text \<open>The stroke-eraser branch of \<open>handleMouseDown\<close>: a path first, else the topmost image.\<close>

definition eraseAt :: "Point \<Rightarrow> App \<Rightarrow> App" where
  "eraseAt point st =
     (case getPathAtPoint st point of
        Some pathToDelete \<Rightarrow>
          (handleSetElements (filter (\<lambda>el. el_id el \<noteq> path_id pathToDelete)) st)\<lparr>undoStack := []\<rparr>
      | None \<Rightarrow>
          (case getElementAtPoint st point of
             Some imgToDelete \<Rightarrow>
               if \<not> is_locked imgToDelete then
                 (handleSetElements (filter (\<lambda>el. el_id el \<noteq> image_id imgToDelete)) st)
                   \<lparr>undoStack := []\<rparr>
               else st
           | None \<Rightarrow> st))"

text \<open>The select branch after the lock button and the handles: a click on an image's body.\<close>

definition selectBody :: "Point \<Rightarrow> App \<Rightarrow> App" where
  "selectBody point st =
     (case getElementAtPoint st point of
        Some elementUnderMouse \<Rightarrow>
          (let st' = st\<lparr>selectedElementId := Some (image_id elementUnderMouse)\<rparr> in
           if \<not> is_locked elementUnderMouse then st'\<lparr>action := Moving, moveStart := point\<rparr>
           else st')
      | None \<Rightarrow> st\<lparr>selectedElementId := None\<rparr>)"

definition selectAt :: "Point \<Rightarrow> App \<Rightarrow> App" where
  "selectAt point st =
     (case selectedImage st of
        Some selectedElement \<Rightarrow>
          if isPointInLockButton st point selectedElement then
            handleSetElements (map (toggleLock (image_id selectedElement))) st
          else if \<not> is_locked selectedElement then
            (case getResizeHandleAtPoint st point selectedElement of
               Some handle \<Rightarrow> st\<lparr>action := Resizing, resizeHandle := Some handle\<rparr>
             | None \<Rightarrow> selectBody point st)
          else selectBody point st
      | None \<Rightarrow> selectBody point st)"

definition handleMouseDown :: "int \<Rightarrow> real \<Rightarrow> real \<Rightarrow> App \<Rightarrow> App" where
  "handleMouseDown button clientX clientY st =
     (let point = getTransformedPoint st clientX clientY in
      if button = 1 then st\<lparr>action := Panning, panStart := \<lparr>pt_x = clientX, pt_y = clientY\<rparr>\<rparr>
      else if button = 0 then
        (if tool st = StrokeEraser then eraseAt point st
         else if tool st = Select then selectAt point st
         else startDrawing clientX clientY (st\<lparr>selectedElementId := None\<rparr>))
      else st)"

text \<open>The updater of the \<open>moving\<close> case.\<close>

definition moveElement :: "string option \<Rightarrow> real \<Rightarrow> real \<Rightarrow> CanvasElement \<Rightarrow> CanvasElement" where
  "moveElement sel dx dy el =
     (case el of
        ImageEl im \<Rightarrow>
          if Some (image_id im) = sel then
            (if is_locked im then el
             else ImageEl (im\<lparr>img_x := img_x im + dx, img_y := img_y im + dy\<rparr>))
          else el
      | PathEl pe \<Rightarrow> el)"

text \<open>
  The three lines every corner of the \<open>resizing\<close> case repeats: the floors on \<open>w\<close> and \<open>h\<close>,
  then the choice of the dimension that drives the other; the result is \<open>(newW, newH)\<close>.
\<close>

definition fitAspect :: "real \<Rightarrow> real \<Rightarrow> real \<Rightarrow> real \<times> real" where
  "fitAspect ar w0 h0 =
     (let minSize = 20;
          w = (if w0 < minSize then minSize else w0);
          h = (if h0 < minSize / ar then minSize / ar else h0) in
      if w / h > ar then (w, w / ar) else (h * ar, h))"

definition resizeImage :: "ResizeHandle option \<Rightarrow> Point \<Rightarrow> ImageElement \<Rightarrow> ImageElement" where
  "resizeImage handle point el =
     (let ar = width el / height el;
          mouseX = pt_x point;
          mouseY = pt_y point in
      case handle of
        Some TopLeft \<Rightarrow>
          (let anchorX = img_x el + width el;
               anchorY = img_y el + height el;
               (newW, newH) = fitAspect ar (anchorX - mouseX) (anchorY - mouseY) in
           el\<lparr>img_x := anchorX - newW, img_y := anchorY - newH, width := newW, height := newH\<rparr>)
      | Some TopRight \<Rightarrow>
          (let anchorX = img_x el;
               anchorY = img_y el + height el;
               (newW, newH) = fitAspect ar (mouseX - anchorX) (anchorY - mouseY) in
           el\<lparr>img_x := anchorX, img_y := anchorY - newH, width := newW, height := newH\<rparr>)
      | Some BottomLeft \<Rightarrow>
          (let anchorX = img_x el + width el;
               anchorY = img_y el;
               (newW, newH) = fitAspect ar (anchorX - mouseX) (mouseY - anchorY) in
           el\<lparr>img_x := anchorX - newW, img_y := anchorY, width := newW, height := newH\<rparr>)
      | Some BottomRight \<Rightarrow>
          (let anchorX = img_x el;
               anchorY = img_y el;
               (newW, newH) = fitAspect ar (mouseX - anchorX) (mouseY - anchorY) in
           el\<lparr>img_x := anchorX, img_y := anchorY, width := newW, height := newH\<rparr>)
      | None \<Rightarrow> el)"

text \<open>The updater of the \<open>resizing\<close> case.\<close>

definition resizeElement ::
  "string option \<Rightarrow> ResizeHandle option \<Rightarrow> Point \<Rightarrow> CanvasElement \<Rightarrow> CanvasElement" where
  "resizeElement sel handle point el =
     (case el of
        ImageEl im \<Rightarrow>
          if Some (image_id im) = sel then
            (if is_locked im then el else ImageEl (resizeImage handle point im))
          else el
      | PathEl pe \<Rightarrow> el)"

text \<open>The cursor \<open>handleMouseMove\<close> sets before its \<open>switch\<close>.\<close>

definition bodyCursor :: "App \<Rightarrow> Point \<Rightarrow> string" where
  "bodyCursor st point =
     (case getElementAtPoint st point of
        Some el \<Rightarrow> if is_locked el then ''default'' else ''move''
      | None \<Rightarrow> ''default'')"

definition hoverCursor :: "App \<Rightarrow> Point \<Rightarrow> string" where
  "hoverCursor st point =
     (if tool st = Select then
        (case selectedImage st of
           Some selectedElement \<Rightarrow>
             if \<not> is_locked selectedElement then
               (case getResizeHandleAtPoint st point selectedElement of
                  Some handle \<Rightarrow>
                    if handle = TopLeft \<or> handle = BottomRight then ''nwse-resize''
                    else ''nesw-resize''
                | None \<Rightarrow>
                    (case getElementAtPoint st point of
                       Some el \<Rightarrow> ''move''
                     | None \<Rightarrow> ''default''))
             else bodyCursor st point
         | None \<Rightarrow> bodyCursor st point)
      else if tool st = Pen \<or> tool st = Highlighter \<or> tool st = Eraser then ''crosshair''
      else ''default'')"

text \<open>The \<open>switch (actionRef.current)\<close> of \<open>handleMouseMove\<close>.\<close>

definition moveAction :: "real \<Rightarrow> real \<Rightarrow> Point \<Rightarrow> App \<Rightarrow> App" where
  "moveAction clientX clientY point st =
     (case action st of
        Panning \<Rightarrow>
          (let dx = clientX - pt_x (panStart st);
               dy = clientY - pt_y (panStart st);
               prev = viewTransform st in
           st\<lparr>viewTransform := prev\<lparr>offset := \<lparr>pt_x = pt_x (offset prev) + dx,
                                                  pt_y = pt_y (offset prev) + dy\<rparr>\<rparr>,
              panStart := \<lparr>pt_x = clientX, pt_y = clientY\<rparr>\<rparr>)
      | Drawing \<Rightarrow>
          (case currentPath st of
             None \<Rightarrow> st
           | Some p \<Rightarrow> st\<lparr>currentPath := Some (p\<lparr>points := points p @ [point]\<rparr>)\<rparr>)
      | Moving \<Rightarrow>
          (let dx = pt_x point - pt_x (moveStart st);
               dy = pt_y point - pt_y (moveStart st) in
           (handleSetElements (map (moveElement (selectedElementId st) dx dy)) st)
             \<lparr>moveStart := point\<rparr>)
      | Resizing \<Rightarrow>
          handleSetElements (map (resizeElement (selectedElementId st) (resizeHandle st) point)) st
      | NoAction \<Rightarrow> st)"

definition handleMouseMove :: "real \<Rightarrow> real \<Rightarrow> App \<Rightarrow> App" where
  "handleMouseMove clientX clientY st =
     (let point = getTransformedPoint st clientX clientY in
      if canvas st = None then st
      else if tool st = StrokeEraser then
        st\<lparr>cursor := (if getPathAtPoint st point \<noteq> None \<or>
                          (case getElementAtPoint st point of
                             Some imgHit \<Rightarrow> \<not> is_locked imgHit
                           | None \<Rightarrow> False)
                       then ''pointer'' else ''default'')\<rparr>
      else if tool st = Select \<and>
              (case selectedImage st of
                 Some selectedElement \<Rightarrow> isPointInLockButton st point selectedElement
               | None \<Rightarrow> False)
      then st\<lparr>cursor := ''pointer''\<rparr>
      else moveAction clientX clientY point (st\<lparr>cursor := hoverCursor st point\<rparr>))"

text \<open>
  \<open>handleMouseUp\<close> serves \<open>onMouseUp\<close>, \<open>onMouseLeave\<close> and \<open>onTouchEnd\<close>. \<open>now\<close> is the
  value of \<open>Date.now().toString()\<close> when it runs.
\<close>

definition handleMouseUp :: "string \<Rightarrow> App \<Rightarrow> App" where
  "handleMouseUp now st =
     (let st1 =
        (if action st = Drawing then
           (case currentPath st of
              Some p \<Rightarrow>
                if length (points p) > 1 then
                  handleSetElements
                    (\<lambda>prev. prev @
                       [PathEl \<lparr>path_id = now,
                                path = p\<lparr>lineWidth := lineWidth p / scale (viewTransform st)\<rparr>\<rparr>])
                    st
                else st
            | None \<Rightarrow> st)
         else st);
          st2 = (if action st = Resizing \<or> action st = Moving then st1\<lparr>undoStack := []\<rparr>
                 else st1) in
      st2\<lparr>action := NoAction, currentPath := None, resizeHandle := None\<rparr>)"

definition onTouchStart :: "real \<Rightarrow> real \<Rightarrow> App \<Rightarrow> App" where
  "onTouchStart clientX clientY st =
     (let point = getTransformedPoint st clientX clientY in
      if tool st = StrokeEraser then
        (case getPathAtPoint st point of
           Some pathToDelete \<Rightarrow>
             (handleSetElements (filter (\<lambda>el. el_id el \<noteq> path_id pathToDelete)) st)
               \<lparr>undoStack := []\<rparr>
         | None \<Rightarrow> st)
      else if tool st = Select then
        (case getElementAtPoint st point of
           Some el \<Rightarrow> st\<lparr>selectedElementId := Some (image_id el)\<rparr>
         | None \<Rightarrow> st\<lparr>selectedElementId := None\<rparr>)
      else startDrawing clientX clientY st)"

definition onTouchMove :: "real \<Rightarrow> real \<Rightarrow> App \<Rightarrow> App" where
  "onTouchMove clientX clientY st =
     (if action st = Drawing then
        (case currentPath st of
           Some p \<Rightarrow>
             st\<lparr>currentPath := Some (p\<lparr>points := points p @ [getTransformedPoint st clientX clientY]\<rparr>)\<rparr>
         | None \<Rightarrow> st)
      else st)"

text \<open>
  The canvas's event props. Mouse events carry \<open>button\<close> and \<open>clientX\<close>, \<open>clientY\<close>; touch
  events those of \<open>e.touches[0]\<close>; the three release events the clock reading.
\<close>

datatype PointerEvent =
    MouseDown int real real
  | MouseMove real real
  | MouseUp string
  | MouseLeave string
  | TouchStart real real
  | TouchMove real real
  | TouchEnd string

fun dispatch :: "PointerEvent \<Rightarrow> App \<Rightarrow> App" where
  "dispatch (MouseDown button clientX clientY) st = handleMouseDown button clientX clientY st"
| "dispatch (MouseMove clientX clientY) st = handleMouseMove clientX clientY st"
| "dispatch (MouseUp now) st = handleMouseUp now st"
| "dispatch (MouseLeave now) st = handleMouseUp now st"
| "dispatch (TouchStart clientX clientY) st = onTouchStart clientX clientY st"
| "dispatch (TouchMove clientX clientY) st = onTouchMove clientX clientY st"
| "dispatch (TouchEnd now) st = handleMouseUp now st"

fun dispatchAll :: "PointerEvent list \<Rightarrow> App \<Rightarrow> App" where
  "dispatchAll [] st = st"
| "dispatchAll (e # es) st = dispatchAll es (dispatch e st)"

fun isMoveEvent :: "PointerEvent \<Rightarrow> bool" where
  "isMoveEvent (MouseMove clientX clientY) = True"
| "isMoveEvent (TouchMove clientX clientY) = True"
| "isMoveEvent e = False"

section \<open>Vocabulary of the specification\<close>


text \<open>
  The distance from \<open>q\<close> to the segment from \<open>a\<close> to \<open>b\<close>: \<open>q\<close> is projected on the line,
  the projection parameter is clamped to \<open>[0, 1]\<close>, and the distance to that point is taken.
\<close>

definition clampedDistance :: "Point \<Rightarrow> Point \<Rightarrow> Point \<Rightarrow> real" where
  "clampedDistance q a b =
     (let t = max 0 (min 1 (((pt_x q - pt_x a) * (pt_x b - pt_x a) +
                              (pt_y q - pt_y a) * (pt_y b - pt_y a)) /
                             ((pt_x b - pt_x a)\<^sup>2 + (pt_y b - pt_y a)\<^sup>2)))
      in sqrt ((pt_x q - (pt_x a + t * (pt_x b - pt_x a)))\<^sup>2 +
               (pt_y q - (pt_y a + t * (pt_y b - pt_y a)))\<^sup>2))"

text \<open>
  A path is hit at zoom \<open>s\<close> when some pair of consecutive points spans a segment closer
  to the probe than \<open>(strokeWidth / 2 + 5) / s\<close>.
\<close>

definition pathHit :: "real \<Rightarrow> Point \<Rightarrow> Path \<Rightarrow> bool" where
  "pathHit s q p =
     list_ex (\<lambda>(a, b). clampedDistance q a b < (lineWidth p / 2 + 5) / s)
             (zip (points p) (tl (points p)))"

fun pathsOf :: "CanvasElement list \<Rightarrow> PathElement list" where
  "pathsOf [] = []"
| "pathsOf (PathEl pe # els) = pe # pathsOf els"
| "pathsOf (ImageEl im # els) = pathsOf els"

text \<open>The hit paths of the store in z-order: the last one is the topmost.\<close>

definition hitPaths :: "App \<Rightarrow> Point \<Rightarrow> PathElement list" where
  "hitPaths st q =
     filter (\<lambda>pe. pathHit (scale (viewTransform st)) q (path pe)) (pathsOf (elements st))"

text \<open>An updater of single elements that returns every locked image as it is.\<close>

definition keepsLocked :: "(CanvasElement \<Rightarrow> CanvasElement) \<Rightarrow> bool" where
  "keepsLocked f = (\<forall>im. is_locked im \<longrightarrow> f (ImageEl im) = ImageEl im)"

section \<open>Sample boards\<close>

definition origin :: Point where
  "origin = \<lparr>pt_x = 0, pt_y = 0\<rparr>"

text \<open>The state of a freshly mounted \<open>App\<close> whose data connection is open.\<close>

definition blank :: App where
  "blank = \<lparr>tool = Pen, prop_color = ''#000000'', prop_lineWidth = 4, elements = [],
             undoStack = [], currentPath = None, action = NoAction, panStart = origin,
             moveStart = origin, resizeHandle = None, selectedElementId = None,
             viewTransform = \<lparr>scale = 1, offset = origin\<rparr>, canvas = Some (0, 0),
             cursor = ''default'', connOpen = True, sent = []\<rparr>"

definition line_a :: PathElement where
  "line_a = \<lparr>path_id = ''a'',
              path = \<lparr>points = [origin, \<lparr>pt_x = 10, pt_y = 0\<rparr>], color = ''#000000'',
                      lineWidth = 4, path_tool = Pen\<rparr>\<rparr>"

definition stroke_a :: CanvasElement where
  "stroke_a = PathEl line_a"

definition photo :: ImageElement where
  "photo = \<lparr>image_id = ''b'', image_obj = None, src = Some ''data:b'', img_x = 0, img_y = 0,
             width = 100, height = 50, locked = Some False\<rparr>"

definition lock_zz :: ElementUpdate where
  "lock_zz = \<lparr>upd_id = ''zz'', upd_locked = Some True, upd_x = None, upd_y = None,
               upd_width = None, upd_height = None, upd_src = None, upd_path = None\<rparr>"

definition locked_photo :: ImageElement where
  "locked_photo = photo\<lparr>locked := Some True\<rparr>"


text \<open>A board on which the locked photo is selected while the action is \<open>moving\<close>.\<close>

definition moving_board :: App where
  "moving_board = blank\<lparr>tool := Select, elements := [ImageEl locked_photo],
                         selectedElementId := Some ''b'', action := Moving\<rparr>"



definition eraser_board :: App where
  "eraser_board = blank\<lparr>tool := StrokeEraser, elements := [ImageEl photo]\<rparr>"

text \<open>A board zoomed to scale 2, with one stroke, and with a stroke of three points open.\<close>

definition zoomed_board :: App where
  "zoomed_board = blank\<lparr>elements := [stroke_a], viewTransform := \<lparr>scale = 2, offset = origin\<rparr>\<rparr>"

definition open_path :: Path where
  "open_path = \<lparr>points = [origin, \<lparr>pt_x = 1, pt_y = 1\<rparr>, \<lparr>pt_x = 2, pt_y = 2\<rparr>],
                 color = ''#000000'', lineWidth = 4, path_tool = Pen\<rparr>"

definition drawing_board :: App where
  "drawing_board = blank\<lparr>action := Drawing, currentPath := Some open_path,
                          viewTransform := \<lparr>scale = 2, offset = origin\<rparr>\<rparr>"

section \<open>Inbound messages\<close>

lemma find_el_id_None: "(find (\<lambda>e. el_id e = i) xs = None) = (i \<notin> el_id ` set xs)"
  by (induction xs) auto

lemma find_snoc_None: "find P xs = None \<Longrightarrow> P y \<Longrightarrow> find P (xs @ [y]) = Some y"
  by (induction xs) (auto split: if_splits)

lemma rehydrate_id: "el_id (rehydrate e) = el_id e"
  by (cases e) (auto split: option.splits)

lemma elements_add:
  "elements (handleRemoteData (ADD_ELEMENT e) st) =
     (if el_id e \<in> el_id ` set (elements st) then elements st else elements st @ [rehydrate e])"
proof (cases "find (\<lambda>x. el_id x = el_id e) (elements st)")
  case None
  then show ?thesis
    using find_el_id_None [of "el_id e" "elements st"] by (simp add: handleRemoteData_def)
next
  case (Some a)
  then show ?thesis
    using find_el_id_None [of "el_id e" "elements st"] by (simp add: handleRemoteData_def)
qed

lemma receiveAll_adds:
  "distinct (map el_id es) \<Longrightarrow>
     elements (receiveAll (map ADD_ELEMENT es) st) =
       elements st @ map rehydrate (filter (\<lambda>e. el_id e \<notin> el_id ` set (elements st)) es)"
proof (induction es arbitrary: st)
  case Nil
  then show ?case by simp
next
  case (Cons e es)
  let ?st = "handleRemoteData (ADD_ELEMENT e) st"
  from Cons.prems have d: "distinct (map el_id es)" and fresh: "el_id e \<notin> el_id ` set es"
    by auto
  have ih: "elements (receiveAll (map ADD_ELEMENT es) ?st) =
       elements ?st @ map rehydrate (filter (\<lambda>x. el_id x \<notin> el_id ` set (elements ?st)) es)"
    using Cons.IH [OF d] .
  have same: "filter (\<lambda>x. el_id x \<notin> el_id ` set (elements ?st)) es =
      filter (\<lambda>x. el_id x \<notin> el_id ` set (elements st)) es"
  proof (rule filter_cong [OF refl])
    fix x assume "x \<in> set es"
    with fresh have "el_id x \<noteq> el_id e" by (metis imageI)
    then show "(el_id x \<notin> el_id ` set (elements ?st)) = (el_id x \<notin> el_id ` set (elements st))"
      by (auto simp: elements_add rehydrate_id)
  qed
  show ?case
    using ih same by (simp add: elements_add)
qed

lemma add_twice:
  "handleRemoteData (ADD_ELEMENT e) (handleRemoteData (ADD_ELEMENT e) st) =
     handleRemoteData (ADD_ELEMENT e) st"
proof (cases "find (\<lambda>x. el_id x = el_id e) (elements st)")
  case None
  then have "find (\<lambda>x. el_id x = el_id e) (elements st @ [rehydrate e]) = Some (rehydrate e)"
    by (simp add: find_snoc_None rehydrate_id)
  with None show ?thesis by (simp add: handleRemoteData_def)
next
  case (Some a)
  then show ?thesis by (simp add: handleRemoteData_def)
qed

text \<open>
  C1. \<open>ADD_ELEMENT\<close> messages with distinct ids, received by any store, leave the store
  followed by the (rehydrated) elements whose id the store did not hold, in the order of
  receipt; one message appends its element if and only if no element of the store has its
  id; and receiving the same message a second time changes nothing.
\<close>

theorem add_element_appends_once:
  "(distinct (map el_id es) \<longrightarrow>
      elements (receiveAll (map ADD_ELEMENT es) st) =
        elements st @ map rehydrate (filter (\<lambda>e. el_id e \<notin> el_id ` set (elements st)) es)) \<and>
   elements (handleRemoteData (ADD_ELEMENT e) st) =
     (if el_id e \<in> el_id ` set (elements st) then elements st else elements st @ [rehydrate e]) \<and>
   handleRemoteData (ADD_ELEMENT e) (handleRemoteData (ADD_ELEMENT e) st) =
     handleRemoteData (ADD_ELEMENT e) st"
  using receiveAll_adds [of es st] elements_add [of e st] add_twice [of e st] by blast

theorem add_element_appends_once_witness:
  "distinct (map el_id [stroke_a, ImageEl photo]) \<and>
   elements (receiveAll (map ADD_ELEMENT [stroke_a, ImageEl photo]) blank) =
     [stroke_a, ImageEl (photo\<lparr>image_obj := Some (Image ''data:b'')\<rparr>)] \<and>
   elements (handleRemoteData (ADD_ELEMENT stroke_a) blank) = [stroke_a] \<and>
   handleRemoteData (ADD_ELEMENT stroke_a) (handleRemoteData (ADD_ELEMENT stroke_a) blank) =
     handleRemoteData (ADD_ELEMENT stroke_a) blank"
  using add_element_appends_once [of "[stroke_a, ImageEl photo]" blank stroke_a]
  by (simp add: stroke_a_def line_a_def photo_def blank_def)



text \<open>
  C9. \<open>REMOVE_ELEMENT\<close> and \<open>UPDATE_ELEMENT\<close> for an id that no element of the store has, and
  a message whose type is none of the five kinds, leave the whole state as it was; the
  handler has no failing branch on them.
\<close>

theorem absent_id_and_unknown_kind_ignored:
  "(rid \<notin> el_id ` set (elements st) \<longrightarrow> handleRemoteData (REMOVE_ELEMENT rid) st = st) \<and>
   (upd_id u \<notin> el_id ` set (elements st) \<longrightarrow> handleRemoteData (UPDATE_ELEMENT u) st = st) \<and>
   handleRemoteData (OTHER_TYPE t) st = st"
proof -
  have r: "handleRemoteData (REMOVE_ELEMENT rid) st = st" if "rid \<notin> el_id ` set (elements st)"
  proof -
    have "filter (\<lambda>el. el_id el \<noteq> rid) (elements st) = elements st"
      using that by (intro filter_True) (metis imageI)
    then show ?thesis by (simp add: handleRemoteData_def)
  qed
  have u: "handleRemoteData (UPDATE_ELEMENT u) st = st" if "upd_id u \<notin> el_id ` set (elements st)"
  proof -
    have "map (\<lambda>el. if el_id el = upd_id u then mergeUpdate u el else el) (elements st) =
        map (\<lambda>el. el) (elements st)"
    proof (rule map_cong [OF refl])
      fix x assume "x \<in> set (elements st)"
      with that have "el_id x \<noteq> upd_id u" by (metis imageI)
      then show "(if el_id x = upd_id u then mergeUpdate u x else x) = x" by simp
    qed
    then show ?thesis by (simp add: handleRemoteData_def)
  qed
  have "handleRemoteData (OTHER_TYPE t) st = st"
    by (simp add: handleRemoteData_def)
  with r u show ?thesis by blast
qed

theorem absent_id_and_unknown_kind_ignored_witness:
  "''zz'' \<notin> el_id ` set (elements (blank\<lparr>elements := [stroke_a]\<rparr>)) \<and>
   upd_id lock_zz \<notin> el_id ` set (elements (blank\<lparr>elements := [stroke_a]\<rparr>)) \<and>
   handleRemoteData (REMOVE_ELEMENT ''zz'') (blank\<lparr>elements := [stroke_a]\<rparr>) =
     blank\<lparr>elements := [stroke_a]\<rparr> \<and>
   handleRemoteData (UPDATE_ELEMENT lock_zz) (blank\<lparr>elements := [stroke_a]\<rparr>) =
     blank\<lparr>elements := [stroke_a]\<rparr> \<and>
   handleRemoteData (OTHER_TYPE ''FOO'') (blank\<lparr>elements := [stroke_a]\<rparr>) =
     blank\<lparr>elements := [stroke_a]\<rparr>"
  using absent_id_and_unknown_kind_ignored
    [of "''zz''" "blank\<lparr>elements := [stroke_a]\<rparr>" lock_zz "''FOO''"]
  by (simp add: stroke_a_def line_a_def lock_zz_def)

lemma sent_handleRemoteData: "sent (handleRemoteData msg st) = sent st"
  by (cases msg) (simp_all add: handleRemoteData_def split: option.splits)

lemma sent_receiveAll: "sent (receiveAll msgs st) = sent st"
  by (induction msgs arbitrary: st) (simp_all add: sent_handleRemoteData)

text \<open>
  C10. Receiving a message of any kind, and so any sequence of messages, passes nothing
  to \<open>connRef.current.send\<close>: the log of sent messages is as it was before.
\<close>

theorem remote_data_sends_nothing:
  "sent (handleRemoteData msg st) = sent st \<and> sent (receiveAll msgs st) = sent st"
  by (simp add: sent_handleRemoteData sent_receiveAll)

section \<open>The wrapped setter\<close>

lemma elements_handleSetElements: "elements (handleSetElements f st) = f (elements st)"
  by (simp add: handleSetElements_def Let_def sendSyncMessage_def split: option.splits)


section \<open>Locked images\<close>

lemma moveElement_locked: "is_locked im \<Longrightarrow> moveElement sel dx dy (ImageEl im) = ImageEl im"
  by (simp add: moveElement_def)

lemma resizeElement_locked: "is_locked im \<Longrightarrow> resizeElement sel h p (ImageEl im) = ImageEl im"
  by (simp add: resizeElement_def)

lemma keepsLocked_id: "keepsLocked (\<lambda>el. el)"
  by (simp add: keepsLocked_def)

lemma moveAction_elements:
  "\<exists>f. keepsLocked f \<and> elements (moveAction cx cy p st) = map f (elements st)"
proof (cases "action st")
  case NoAction
  then have "elements (moveAction cx cy p st) = map (\<lambda>el. el) (elements st)"
    by (simp add: moveAction_def)
  with keepsLocked_id show ?thesis by blast
next
  case Drawing
  then have "elements (moveAction cx cy p st) = map (\<lambda>el. el) (elements st)"
    by (simp add: moveAction_def split: option.splits)
  with keepsLocked_id show ?thesis by blast
next
  case Panning
  then have "elements (moveAction cx cy p st) = map (\<lambda>el. el) (elements st)"
    by (simp add: moveAction_def Let_def)
  with keepsLocked_id show ?thesis by blast
next
  case Resizing
  then have "keepsLocked (resizeElement (selectedElementId st) (resizeHandle st) p) \<and>
      elements (moveAction cx cy p st) =
        map (resizeElement (selectedElementId st) (resizeHandle st) p) (elements st)"
    by (simp add: moveAction_def keepsLocked_def elements_handleSetElements resizeElement_locked)
  then show ?thesis by blast
next
  case Moving
  then have "keepsLocked (moveElement (selectedElementId st)
         (pt_x p - pt_x (moveStart st)) (pt_y p - pt_y (moveStart st))) \<and>
      elements (moveAction cx cy p st) =
        map (moveElement (selectedElementId st)
         (pt_x p - pt_x (moveStart st)) (pt_y p - pt_y (moveStart st))) (elements st)"
    by (simp add: moveAction_def keepsLocked_def Let_def elements_handleSetElements
        moveElement_locked)
  then show ?thesis by blast
qed

lemma handleMouseMove_elements:
  "\<exists>f. keepsLocked f \<and> elements (handleMouseMove cx cy st) = map f (elements st)"
proof -
  let ?p = "getTransformedPoint st cx cy"
  obtain f where f: "keepsLocked f"
    "elements (moveAction cx cy ?p (st\<lparr>cursor := hoverCursor st ?p\<rparr>)) = map f (elements st)"
    using moveAction_elements [of cx cy ?p "st\<lparr>cursor := hoverCursor st ?p\<rparr>"] by auto
  have "elements (handleMouseMove cx cy st) = elements st \<or>
        elements (handleMouseMove cx cy st) =
         elements (moveAction cx cy ?p (st\<lparr>cursor := hoverCursor st ?p\<rparr>))"
    by (simp add: handleMouseMove_def Let_def)
  then consider (same) "elements (handleMouseMove cx cy st) = elements st"
    | (act) "elements (handleMouseMove cx cy st) =
         elements (moveAction cx cy ?p (st\<lparr>cursor := hoverCursor st ?p\<rparr>))"
    by blast
  then show ?thesis
  proof cases
    case same
    then have "elements (handleMouseMove cx cy st) = map (\<lambda>el. el) (elements st)" by simp
    with keepsLocked_id show ?thesis by blast
  next
    case act
    with f show ?thesis by auto
  qed
qed

lemma onTouchMove_elements: "elements (onTouchMove cx cy st) = elements st"
  by (simp add: onTouchMove_def split: option.splits)

lemma move_event_elements:
  assumes "isMoveEvent e"
  shows "\<exists>f. keepsLocked f \<and> elements (dispatch e st) = map f (elements st)"
proof (cases e)
  case (MouseMove cx cy)
  then show ?thesis using handleMouseMove_elements [of cx cy st] by simp
next
  case (TouchMove cx cy)
  then have "elements (dispatch e st) = map (\<lambda>el. el) (elements st)"
    by (simp add: onTouchMove_elements)
  with keepsLocked_id show ?thesis by blast
qed (use assms in simp_all)

lemma move_events_keep_locked:
  "list_all isMoveEvent evs \<Longrightarrow> i < length (elements st) \<Longrightarrow> elements st ! i = ImageEl im \<Longrightarrow>
   is_locked im \<Longrightarrow>
   length (elements (dispatchAll evs st)) = length (elements st) \<and>
   elements (dispatchAll evs st) ! i = ImageEl im"
proof (induction evs arbitrary: st)
  case Nil
  then show ?case by simp
next
  case (Cons e evs)
  from Cons.prems obtain f where f: "keepsLocked f" "elements (dispatch e st) = map f (elements st)"
    using move_event_elements [of e st] by auto
  have len: "length (elements (dispatch e st)) = length (elements st)"
    using f by simp
  have at: "elements (dispatch e st) ! i = ImageEl im"
    using f Cons.prems by (simp add: keepsLocked_def)
  have "length (elements (dispatchAll evs (dispatch e st))) = length (elements (dispatch e st)) \<and>
        elements (dispatchAll evs (dispatch e st)) ! i = ImageEl im"
    using Cons.IH [of "dispatch e st"] Cons.prems len at by simp
  with len show ?case by simp
qed

text \<open>
  C3. An image whose \<open>locked\<close> flag is true is returned as it is by the updater of the
  \<open>moving\<close> case and by the updater of the \<open>resizing\<close> case, each time they run; so after
  any sequence of pointer-move events, from any state (the two action states included),
  the store has the same length and holds the same element, with its \<open>x\<close>, \<open>y\<close>, \<open>width\<close>
  and \<open>height\<close>, at the locked image's place.
\<close>

theorem locked_image_never_moves:
  assumes "is_locked im"
  shows "moveElement sel dx dy (ImageEl im) = ImageEl im \<and>
         resizeElement sel h p (ImageEl im) = ImageEl im \<and>
         (list_all isMoveEvent evs \<and> i < length (elements st) \<and> elements st ! i = ImageEl im \<longrightarrow>
            length (elements (dispatchAll evs st)) = length (elements st) \<and>
            elements (dispatchAll evs st) ! i = ImageEl im)"
  using assms moveElement_locked [of im sel dx dy] resizeElement_locked [of im sel h p]
    move_events_keep_locked [of evs i st im]
  by blast

theorem locked_image_never_moves_witness:
  "is_locked locked_photo \<and>
   list_all isMoveEvent [MouseMove 30 40, TouchMove 31 41, MouseMove 60 10] \<and>
   0 < length (elements moving_board) \<and>
   elements moving_board ! 0 = ImageEl locked_photo \<and>
   action moving_board = Moving \<and>
   selectedElementId moving_board = Some (image_id locked_photo) \<and>
   elements (dispatchAll [MouseMove 30 40, TouchMove 31 41, MouseMove 60 10] moving_board) ! 0 =
     ImageEl locked_photo \<and>
   elements (dispatchAll [MouseMove 30 40, TouchMove 31 41, MouseMove 60 10]
     (moving_board\<lparr>action := Resizing, resizeHandle := Some TopLeft\<rparr>)) ! 0 = ImageEl locked_photo"
  using locked_image_never_moves [where im = locked_photo and i = 0 and st = moving_board
      and evs = "[MouseMove 30 40, TouchMove 31 41, MouseMove 60 10]"]
    locked_image_never_moves [where im = locked_photo and i = 0
      and st = "moving_board\<lparr>action := Resizing, resizeHandle := Some TopLeft\<rparr>"
      and evs = "[MouseMove 30 40, TouchMove 31 41, MouseMove 60 10]"]
  by (simp add: moving_board_def blank_def locked_photo_def photo_def is_locked_def)

section \<open>Resizing\<close>





section \<open>Path hit test\<close>

lemma segmentHit_step:
  "segmentHit q th (p1 # p2 # rest) =
     (clampedDistance q p1 p2 < th \<or> segmentHit q th (p2 # rest))"
proof (cases "(pt_x p2 - pt_x p1) * (pt_x p2 - pt_x p1) +
              (pt_y p2 - pt_y p1) * (pt_y p2 - pt_y p1) = 0")
  case True
  then have z: "pt_x p2 - pt_x p1 = 0" "pt_y p2 - pt_y p1 = 0"
    by simp_all
  have "clampedDistance q p1 p2 = hypot (pt_x q - pt_x p1) (pt_y q - pt_y p1)"
    using z by (simp add: clampedDistance_def hypot_def power2_eq_square)
  with True show ?thesis by (simp add: Let_def)
next
  case False
  then show ?thesis
    by (simp add: Let_def clampedDistance_def hypot_def power2_eq_square)
qed

lemma segmentHit_iff:
  "segmentHit q th ps = list_ex (\<lambda>(a, b). clampedDistance q a b < th) (zip ps (tl ps))"
proof (induction ps rule: induct_list012)
  case 1
  then show ?case by simp
next
  case (2 x)
  then show ?case by simp
next
  case (3 x y zs)
  then show ?case by (simp add: segmentHit_step del: segmentHit.simps)
qed

lemma consecutive_pairs:
  "list_ex P (zip ps (tl ps)) = (\<exists>j. Suc j < length ps \<and> P (ps ! j, ps ! Suc j))"
proof (cases ps)
  case Nil
  then show ?thesis by simp
next
  case (Cons x xs)
  have "list_ex P (zip ps (tl ps)) = (\<exists>j. j < length xs \<and> P ((x # xs) ! j, xs ! j))"
    using Cons by (auto simp: list_ex_iff set_zip)
  also have "\<dots> = (\<exists>j. Suc j < length ps \<and> P (ps ! j, ps ! Suc j))"
    using Cons by simp
  finally show ?thesis .
qed

lemma pathsOf_append: "pathsOf (xs @ ys) = pathsOf xs @ pathsOf ys"
  by (induction xs rule: pathsOf.induct) simp_all

lemma pathFrom_rev:
  "pathFrom vt q (rev els) =
     (let hs = filter (\<lambda>pe. pathHit (scale vt) q (path pe)) (pathsOf els)
      in if hs = [] then None else Some (last hs))"
proof (induction els rule: rev_induct)
  case Nil
  then show ?case by simp
next
  case (snoc x xs)
  show ?case
  proof (cases x)
    case (PathEl pe)
    then show ?thesis using snoc
      by (simp add: pathsOf_append Let_def pathHit_def segmentHit_iff)
  next
    case (ImageEl im)
    then show ?thesis using snoc by (simp add: pathsOf_append)
  qed
qed

text \<open>
  The clamped projection is the nearest point of the segment: no point of the segment
  is closer to the probe than \<open>clampedDistance\<close> says.
\<close>

lemma clamped_projection_least:
  fixes ux uy dx dy t :: real
  assumes t: "0 \<le> t" "t \<le> 1"
  shows "(ux - max 0 (min 1 ((ux * dx + uy * dy) / (dx\<^sup>2 + dy\<^sup>2))) * dx)\<^sup>2 +
         (uy - max 0 (min 1 ((ux * dx + uy * dy) / (dx\<^sup>2 + dy\<^sup>2))) * dy)\<^sup>2
         \<le> (ux - t * dx)\<^sup>2 + (uy - t * dy)\<^sup>2"
proof -
  define L where "L = dx\<^sup>2 + dy\<^sup>2"
  define s where "s = ux * dx + uy * dy"
  define r where "r = s / L"
  define t0 where "t0 = max 0 (min 1 r)"
  have L0: "0 \<le> L" by (simp add: L_def)
  have diff: "(ux - t * dx)\<^sup>2 + (uy - t * dy)\<^sup>2 - ((ux - t0 * dx)\<^sup>2 + (uy - t0 * dy)\<^sup>2) =
      (t - t0) * (L * (t + t0) - 2 * s)"
    by (simp add: L_def s_def power2_eq_square algebra_simps)
  have "0 \<le> (t - t0) * (L * (t + t0) - 2 * s)"
  proof (cases "L = 0")
    case True
    then have "dx = 0" "dy = 0" by (simp_all add: L_def)
    then have "s = 0" by (simp add: s_def)
    with True show ?thesis by simp
  next
    case False
    with L0 have Lpos: "0 < L" by simp
    have s: "s = r * L" using False by (simp add: r_def)
    have form: "L * (t + t0) - 2 * s = L * (t + t0 - 2 * r)"
      by (simp add: s algebra_simps)
    consider (low) "r \<le> 0" | (mid) "0 < r" "r < 1" | (high) "1 \<le> r" by linarith
    then have "0 \<le> (t - t0) * (L * (t + t0 - 2 * r))"
    proof cases
      case low
      then have t0: "t0 = 0" by (simp add: t0_def)
      have "0 \<le> t * (L * (t - 2 * r))"
        using t low Lpos by (intro mult_nonneg_nonneg) auto
      then show ?thesis by (simp add: t0)
    next
      case mid
      then have t0: "t0 = r" by (simp add: t0_def)
      have "0 \<le> L * ((t - r) * (t - r))" using Lpos by simp
      then show ?thesis by (simp add: t0 algebra_simps)
    next
      case high
      then have t0: "t0 = 1" by (simp add: t0_def)
      have "t - 1 \<le> 0" using t by simp
      moreover have "L * (t + 1 - 2 * r) \<le> 0"
        using t high Lpos by (intro mult_nonneg_nonpos) auto
      ultimately have "0 \<le> (t - 1) * (L * (t + 1 - 2 * r))"
        by (rule mult_nonpos_nonpos)
      then show ?thesis by (simp add: t0)
    qed
    then show ?thesis by (simp only: form)
  qed
  with diff have "(ux - t0 * dx)\<^sup>2 + (uy - t0 * dy)\<^sup>2 \<le> (ux - t * dx)\<^sup>2 + (uy - t * dy)\<^sup>2"
    by linarith
  then show ?thesis by (simp add: t0_def r_def s_def L_def)
qed

lemma clampedDistance_least:
  assumes "0 \<le> t" "t \<le> 1"
  shows "clampedDistance q a b \<le>
     sqrt ((pt_x q - (pt_x a + t * (pt_x b - pt_x a)))\<^sup>2 +
           (pt_y q - (pt_y a + t * (pt_y b - pt_y a)))\<^sup>2)"
proof -
  have "(pt_x q - pt_x a - max 0 (min 1 (((pt_x q - pt_x a) * (pt_x b - pt_x a) +
            (pt_y q - pt_y a) * (pt_y b - pt_y a)) /
            ((pt_x b - pt_x a)\<^sup>2 + (pt_y b - pt_y a)\<^sup>2))) * (pt_x b - pt_x a))\<^sup>2 +
        (pt_y q - pt_y a - max 0 (min 1 (((pt_x q - pt_x a) * (pt_x b - pt_x a) +
            (pt_y q - pt_y a) * (pt_y b - pt_y a)) /
            ((pt_x b - pt_x a)\<^sup>2 + (pt_y b - pt_y a)\<^sup>2))) * (pt_y b - pt_y a))\<^sup>2
        \<le> (pt_x q - pt_x a - t * (pt_x b - pt_x a))\<^sup>2 +
           (pt_y q - pt_y a - t * (pt_y b - pt_y a))\<^sup>2"
    using clamped_projection_least [OF assms] .
  then show ?thesis
    unfolding clampedDistance_def Let_def by (simp add: diff_diff_eq)
qed

lemma sqrt_less_square: "0 < b \<Longrightarrow> (sqrt a < b) = (a < b\<^sup>2)"
  by (metis abs_of_pos real_sqrt_abs real_sqrt_less_iff)

text \<open>
  C5. At a positive zoom scale, the inner loop of \<open>getPathAtPoint\<close> returns the path
  exactly when, for some pair of consecutive points, the clamped-projection distance from
  the probe to their segment is strictly below \<open>(lineWidth / 2 + 5) / scale\<close>; and
  \<open>getPathAtPoint\<close> returns the last hit path of the store, the topmost one, or nothing
  when no path is hit.
\<close>

theorem path_hit_is_topmost_near_segment:
  assumes "0 < scale (viewTransform st)"
  shows "segmentHit q ((lineWidth p / 2 + 5) / scale (viewTransform st)) (points p) =
           (\<exists>j. Suc j < length (points p) \<and>
                clampedDistance q (points p ! j) (points p ! Suc j) <
                  (lineWidth p / 2 + 5) / scale (viewTransform st)) \<and>
         pathHit (scale (viewTransform st)) q p =
           segmentHit q ((lineWidth p / 2 + 5) / scale (viewTransform st)) (points p) \<and>
         getPathAtPoint st q =
           (if hitPaths st q = [] then None else Some (last (hitPaths st q)))"
proof -
  have "segmentHit q ((lineWidth p / 2 + 5) / scale (viewTransform st)) (points p) =
      (\<exists>j. Suc j < length (points p) \<and>
           clampedDistance q (points p ! j) (points p ! Suc j) <
             (lineWidth p / 2 + 5) / scale (viewTransform st))"
    by (simp add: segmentHit_iff consecutive_pairs)
  moreover have "pathHit (scale (viewTransform st)) q p =
      segmentHit q ((lineWidth p / 2 + 5) / scale (viewTransform st)) (points p)"
    by (simp add: pathHit_def segmentHit_iff)
  moreover have "getPathAtPoint st q =
      (if hitPaths st q = [] then None else Some (last (hitPaths st q)))"
    by (simp add: getPathAtPoint_def pathFrom_rev hitPaths_def Let_def)
  ultimately show ?thesis by blast
qed

theorem path_hit_is_topmost_near_segment_witness:
  "0 < scale (viewTransform zoomed_board) \<and>
   hitPaths zoomed_board \<lparr>pt_x = 5, pt_y = 3\<rparr> = [line_a] \<and>
   getPathAtPoint zoomed_board \<lparr>pt_x = 5, pt_y = 3\<rparr> = Some line_a \<and>
   hitPaths zoomed_board \<lparr>pt_x = 5, pt_y = 4\<rparr> = [] \<and>
   getPathAtPoint zoomed_board \<lparr>pt_x = 5, pt_y = 4\<rparr> = None"
proof -
  have s: "0 < scale (viewTransform zoomed_board)"
    by (simp add: zoomed_board_def)
  have near: "hitPaths zoomed_board \<lparr>pt_x = 5, pt_y = 3\<rparr> = [line_a]"
    by (simp add: hitPaths_def zoomed_board_def blank_def stroke_a_def line_a_def origin_def
        pathHit_def clampedDistance_def sqrt_less_square)
  have far: "hitPaths zoomed_board \<lparr>pt_x = 5, pt_y = 4\<rparr> = []"
    by (simp add: hitPaths_def zoomed_board_def blank_def stroke_a_def line_a_def origin_def
        pathHit_def clampedDistance_def sqrt_less_square)
  show ?thesis
    using s near far
      path_hit_is_topmost_near_segment [OF s, of "\<lparr>pt_x = 5, pt_y = 3\<rparr>" "path line_a"]
      path_hit_is_topmost_near_segment [OF s, of "\<lparr>pt_x = 5, pt_y = 4\<rparr>" "path line_a"]
    by simp
qed

section \<open>Pointer release\<close>

text \<open>
  C7. At a positive zoom scale, a release (\<open>onMouseUp\<close>, \<open>onMouseLeave\<close> and \<open>onTouchEnd\<close>
  all run \<open>handleMouseUp\<close>) appends the open path as a new path element, its line width
  divided by the scale, exactly when the action is \<open>drawing\<close> and the open path has at
  least 2 points; otherwise the store is as it was. In every case the action is \<open>none\<close>
  afterwards and the open path is gone.
\<close>

theorem release_commits_open_path:
  assumes "0 < scale (viewTransform st)"
  shows "elements (handleMouseUp now st) =
           (case currentPath st of
              Some p \<Rightarrow>
                if action st = Drawing \<and> 2 \<le> length (points p) then
                  elements st @
                    [PathEl \<lparr>path_id = now,
                             path = p\<lparr>lineWidth := lineWidth p / scale (viewTransform st)\<rparr>\<rparr>]
                else elements st
            | None \<Rightarrow> elements st) \<and>
         action (handleMouseUp now st) = NoAction \<and>
         currentPath (handleMouseUp now st) = None \<and>
         dispatch (MouseUp now) st = handleMouseUp now st \<and>
         dispatch (MouseLeave now) st = handleMouseUp now st \<and>
         dispatch (TouchEnd now) st = handleMouseUp now st"
  by (auto simp add: handleMouseUp_def Let_def elements_handleSetElements split: option.splits)

theorem release_commits_open_path_witness:
  "0 < scale (viewTransform drawing_board) \<and>
   elements (dispatch (MouseLeave ''1700'') drawing_board) =
     [PathEl \<lparr>path_id = ''1700'', path = open_path\<lparr>lineWidth := 2\<rparr>\<rparr>] \<and>
   action (dispatch (MouseLeave ''1700'') drawing_board) = NoAction \<and>
   elements (handleMouseUp ''1700''
     (drawing_board\<lparr>currentPath := Some (open_path\<lparr>points := [origin]\<rparr>)\<rparr>)) = []"
  using release_commits_open_path [of drawing_board "''1700''"]
    release_commits_open_path
      [of "drawing_board\<lparr>currentPath := Some (open_path\<lparr>points := [origin]\<rparr>)\<rparr>" "''1700''"]
  by (simp add: drawing_board_def blank_def open_path_def)

section \<open>Stroke eraser\<close>

lemma action_handleSetElements: "action (handleSetElements f st) = action st"
  by (simp add: handleSetElements_def Let_def sendSyncMessage_def split: option.splits)

text \<open>
  With the left button, the eraser removes the elements with the id of the topmost hit
  path, or else of the topmost image under the point when that image is not locked.
\<close>

lemma mouse_eraser_paths_then_image:
  assumes "tool st = StrokeEraser"
  shows "action (handleMouseDown 0 cx cy st) = action st \<and>
         elements (handleMouseDown 0 cx cy st) =
           (case getPathAtPoint st (getTransformedPoint st cx cy) of
              Some pe \<Rightarrow> filter (\<lambda>el. el_id el \<noteq> path_id pe) (elements st)
            | None \<Rightarrow>
                (case getElementAtPoint st (getTransformedPoint st cx cy) of
                   Some im \<Rightarrow>
                     if is_locked im then elements st
                     else filter (\<lambda>el. el_id el \<noteq> image_id im) (elements st)
                 | None \<Rightarrow> elements st))"
  using assms
  by (simp add: handleMouseDown_def eraseAt_def Let_def elements_handleSetElements
      action_handleSetElements split: option.splits)

text \<open>On a touch, the eraser tests paths only.\<close>

lemma touch_eraser_paths_only:
  assumes "tool st = StrokeEraser"
  shows "action (onTouchStart cx cy st) = action st \<and>
         elements (onTouchStart cx cy st) =
           (case getPathAtPoint st (getTransformedPoint st cx cy) of
              Some pe \<Rightarrow> filter (\<lambda>el. el_id el \<noteq> path_id pe) (elements st)
            | None \<Rightarrow> elements st)"
  using assms
  by (simp add: onTouchStart_def Let_def elements_handleSetElements
      action_handleSetElements split: option.splits)

text \<open>
  C8. The stroke eraser on the sample board, whose only element is the unlocked photo, at
  the point \<open>(50, 25)\<close> inside it: the left mouse button removes the photo, while a touch
  at the same point leaves it in the store, since \<open>onTouchStart\<close> only tests paths.
\<close>

theorem touch_eraser_leaves_image:
  "getPathAtPoint eraser_board (getTransformedPoint eraser_board 50 25) = None \<and>
   getElementAtPoint eraser_board (getTransformedPoint eraser_board 50 25) = Some photo \<and>
   \<not> is_locked photo \<and>
   elements (dispatch (MouseDown 0 50 25) eraser_board) = [] \<and>
   elements (dispatch (TouchStart 50 25) eraser_board) = [ImageEl photo]"
  by (simp add: eraser_board_def blank_def photo_def origin_def handleMouseDown_def
      onTouchStart_def eraseAt_def getPathAtPoint_def getElementAtPoint_def
      getTransformedPoint_def inImage_def is_locked_def handleSetElements_def
      sendSyncMessage_def Let_def)

section \<open>Lock toggle\<close>






end
